theory Spec2Isabelle
  imports Main "HOL-Library.Word"
begin

section \<open>Data model\<close>

text \<open>
  The queue of \<^verbatim>\<open>FileStorageQueue/fsq.h\<close>. Timestamps are the \<^verbatim>\<open>uint64_t\<close> of the
  test's \<^verbatim>\<open>MockTime\<close>; sizes are \<^verbatim>\<open>uint64_t\<close>, so \<open>+\<close> wraps as the code's does.
  Member names drop the trailing underscore of the source (\<^verbatim>\<open>status_\<close> is \<open>status\<close>).
\<close>

type_synonym T_TIMESTAMP = "64 word"
type_synonym uint64_t = "64 word"

text \<open>
  \<^verbatim>\<open>FileInfo<T_TIMESTAMP>\<close>, built in the source as
  \<^verbatim>\<open>FileInfo(name, full_path_name, timestamp, size)\<close>; \<open>size_bytes\<close> is its
  \<^verbatim>\<open>size\<close> member.
\<close>

record FileInfo =
  name :: string
  full_path_name :: string
  timestamp :: T_TIMESTAMP
  size_bytes :: uint64_t

record QueueFinalizedFilesStatus =
  queue :: "FileInfo list"
  total_size :: uint64_t

record QueueStatus =
  appended_file_size :: uint64_t
  appended_file_timestamp :: T_TIMESTAMP
  finalized :: QueueFinalizedFilesStatus

datatype FileProcessingResult = Success | SuccessAndMoved | Unavailable | FailureNeerRetry

text \<open>
  The template parameter \<^verbatim>\<open>CONFIG\<close>: the strategies the class inherits and the file
  system it calls, over a disk of type \<open>'d\<close> and messages of type \<open>'m\<close>. Their headers
  (\<^verbatim>\<open>strategies.h\<close>, \<^verbatim>\<open>config.h\<close>, \<^verbatim>\<open>Bricks/file/file.h\<close>) are parameters of the
  engine, and of this model. \<open>ParseFileName\<close> returns the timestamp it writes through
  its pointer argument, \<open>None\<close> for \<^verbatim>\<open>false\<close>. The disk \<open>'d\<close> is the whole state of the
  file system, its open streams included: \<open>OutputFile\<close> is the effect of constructing
  the stream on a path, \<open>AppendToFile\<close> the effect of writing a message to the stream
  open on a path, and \<open>OutputFile_bad\<close> is the \<^verbatim>\<open>bad()\<close> of the stream open on a path.
\<close>

record ('d, 'm) CONFIG =
  finalized_GenerateFileName :: "T_TIMESTAMP \<Rightarrow> string"
  finalized_ParseFileName :: "string \<Rightarrow> T_TIMESTAMP option"
  current_GenerateFileName :: "T_TIMESTAMP \<Rightarrow> string"
  current_ParseFileName :: "string \<Rightarrow> T_TIMESTAMP option"
  MessageSizeInBytes :: "'m \<Rightarrow> uint64_t"
  AppendToFile :: "string \<Rightarrow> 'm \<Rightarrow> 'd \<Rightarrow> 'd"
  ShouldFinalize :: "QueueStatus \<Rightarrow> T_TIMESTAMP \<Rightarrow> bool"
  JoinPath :: "string \<Rightarrow> string \<Rightarrow> string"
  RenameFile :: "string \<Rightarrow> string \<Rightarrow> 'd \<Rightarrow> 'd"
  RemoveFile :: "string \<Rightarrow> 'd \<Rightarrow> 'd"
  fs_ScanDir :: "string \<Rightarrow> 'd \<Rightarrow> string list"
  GetFileSize :: "string \<Rightarrow> 'd \<Rightarrow> uint64_t"
  OutputFile :: "string \<Rightarrow> 'd \<Rightarrow> 'd"
  OutputFile_bad :: "string \<Rightarrow> 'd \<Rightarrow> bool"

text \<open>
  The members of \<^verbatim>\<open>class FSQ\<close>. \<open>current_file\<close> is the \<^verbatim>\<open>unique_ptr\<close>: \<open>None\<close> for
  \<^verbatim>\<open>nullptr\<close>, \<open>Some p\<close> for a stream open on path \<open>p\<close>. \<open>notifications\<close> counts the
  calls of \<^verbatim>\<open>queue_status_condition_variable_.notify_all()\<close>. \<open>disk\<close> is the file system
  the engine works on.
\<close>

record 'd FSQ =
  status :: QueueStatus
  status_ready :: bool
  working_directory :: string
  current_file :: "string option"
  current_file_name :: string
  force_processing :: bool
  force_worker_thread_shutdown :: bool
  notifications :: nat
  disk :: 'd

text \<open>The constructor's member initialisation (the worker thread is started apart).\<close>

definition FSQ_constructor :: "string \<Rightarrow> 'd \<Rightarrow> 'd FSQ" where
  "FSQ_constructor dir d =
     \<lparr> status = \<lparr> appended_file_size = 0, appended_file_timestamp = 0,
                  finalized = \<lparr> queue = [], total_size = 0 \<rparr> \<rparr>,
       status_ready = False,
       working_directory = dir,
       current_file = None,
       current_file_name = [],
       force_processing = False,
       force_worker_thread_shutdown = False,
       notifications = 0,
       disk = d \<rparr>"

text \<open>The destructor, up to the join or detach of the worker thread.\<close>

definition FSQ_destructor :: "'d FSQ \<Rightarrow> 'd FSQ" where
  "FSQ_destructor s =
     s\<lparr> force_worker_thread_shutdown := True,
        notifications := Suc (notifications s),
        current_file := None \<rparr>"

section \<open>Scanning the working directory\<close>

text \<open>
  Modelled from the spec: \<^verbatim>\<open>operator<\<close> of \<^verbatim>\<open>FileInfo\<close> lives in \<^verbatim>\<open>status.h\<close>, which
  is not among the sources. The spec orders by timestamp ascending, ties broken by
  basename lexicographically.
\<close>

fun string_less :: "string \<Rightarrow> string \<Rightarrow> bool" where
  "string_less [] [] = False"
| "string_less [] (y # ys) = True"
| "string_less (x # xs) [] = False"
| "string_less (x # xs) (y # ys) =
     (if x = y then string_less xs ys else (of_char x :: nat) < of_char y)"

definition FileInfo_less :: "FileInfo \<Rightarrow> FileInfo \<Rightarrow> bool" where
  "FileInfo_less a b =
     (if timestamp a = timestamp b then string_less (name a) (name b)
      else timestamp a < timestamp b)"

text \<open>\<^verbatim>\<open>std::sort\<close> over \<^verbatim>\<open>operator<\<close>, as an insertion sort.\<close>

fun insort_FileInfo :: "FileInfo \<Rightarrow> FileInfo list \<Rightarrow> FileInfo list" where
  "insort_FileInfo x [] = [x]"
| "insort_FileInfo x (y # ys) =
     (if FileInfo_less x y then x # y # ys else y # insort_FileInfo x ys)"

definition std_sort :: "FileInfo list \<Rightarrow> FileInfo list" where
  "std_sort xs = foldr insort_FileInfo xs []"

text \<open>
  \<^verbatim>\<open>FSQ::ScanDir(f)\<close>: every name of the working directory that \<open>f\<close> parses becomes a
  \<^verbatim>\<open>FileInfo\<close> with its path, parsed timestamp and size on disk; the list is sorted.
\<close>

definition ScanDir :: "('d, 'm) CONFIG \<Rightarrow> (string \<Rightarrow> T_TIMESTAMP option) \<Rightarrow> 'd FSQ \<Rightarrow> FileInfo list" where
  "ScanDir cfg f s =
     std_sort (List.map_filter
       (\<lambda>file_name. case f file_name of
            None \<Rightarrow> None
          | Some t \<Rightarrow> Some \<lparr> name = file_name,
                             full_path_name = JoinPath cfg (working_directory s) file_name,
                             timestamp = t,
                             size_bytes = GetFileSize cfg (JoinPath cfg (working_directory s) file_name) (disk s) \<rparr>)
       (fs_ScanDir cfg (working_directory s) (disk s)))"

section \<open>Public operations\<close>

text \<open>
  \<^verbatim>\<open>FinalizeCurrentFile(lock)\<close>: with a current file open, close it, rename it under
  its finalized name, push its \<^verbatim>\<open>FileInfo\<close> to the back of the queue, reset the
  current-file accounting and notify.
\<close>

definition FinalizeCurrentFile_locked :: "('d, 'm) CONFIG \<Rightarrow> 'd FSQ \<Rightarrow> 'd FSQ" where
  "FinalizeCurrentFile_locked cfg s =
     (case current_file s of
        None \<Rightarrow> s
      | Some h \<Rightarrow>
          (let finalized_file_name =
                 finalized_GenerateFileName cfg (appended_file_timestamp (status s));
               finalized_file_info =
                 \<lparr> name = finalized_file_name,
                   full_path_name = JoinPath cfg (working_directory s) finalized_file_name,
                   timestamp = appended_file_timestamp (status s),
                   size_bytes = appended_file_size (status s) \<rparr>
           in s\<lparr> current_file := None,
                 disk := RenameFile cfg (current_file_name s)
                           (full_path_name finalized_file_info) (disk s),
                 status := \<lparr> appended_file_size = 0,
                             appended_file_timestamp = 0,
                             finalized = (finalized (status s))
                               \<lparr> queue := queue (finalized (status s)) @ [finalized_file_info] \<rparr> \<rparr>,
                 current_file_name := [],
                 notifications := Suc (notifications s) \<rparr>))"

text \<open>\<^verbatim>\<open>FinalizeCurrentFile()\<close>: takes the lock when a current file is open.\<close>

definition FinalizeCurrentFile :: "('d, 'm) CONFIG \<Rightarrow> 'd FSQ \<Rightarrow> 'd FSQ" where
  "FinalizeCurrentFile cfg s =
     (case current_file s of None \<Rightarrow> s | Some h \<Rightarrow> FinalizeCurrentFile_locked cfg s)"

definition EnsureCurrentFileIsOpen ::
    "('d, 'm) CONFIG \<Rightarrow> uint64_t \<Rightarrow> T_TIMESTAMP \<Rightarrow> 'd FSQ \<Rightarrow> 'd FSQ" where
  "EnsureCurrentFileIsOpen cfg message_size_in_bytes now s =
     (case current_file s of
        Some h \<Rightarrow> s
      | None \<Rightarrow>
          (let n = JoinPath cfg (working_directory s) (current_GenerateFileName cfg now)
           in s\<lparr> current_file_name := n,
                 current_file := Some n,
                 disk := OutputFile cfg n (disk s),
                 status := (status s)\<lparr> appended_file_timestamp := now \<rparr> \<rparr>))"

text \<open>
  \<^verbatim>\<open>PushMessage\<close>, with \<open>now\<close> the reading of \<^verbatim>\<open>time_manager_.Now()\<close>. The result is
  \<open>None\<close> where one of its two assertions aborts: \<^verbatim>\<open>assert(current_file_)\<close>, or
  \<^verbatim>\<open>assert(!current_file_->bad())\<close> on a stream that is bad before the write.
\<close>

definition PushMessage ::
    "('d, 'm) CONFIG \<Rightarrow> 'm \<Rightarrow> T_TIMESTAMP \<Rightarrow> 'd FSQ \<Rightarrow> 'd FSQ option" where
  "PushMessage cfg message now s =
     (if force_worker_thread_shutdown s then Some s
      else
        (let message_size_in_bytes = MessageSizeInBytes cfg message;
             s1 = EnsureCurrentFileIsOpen cfg message_size_in_bytes now s
         in case current_file s1 of
              None \<Rightarrow> None
            | Some h \<Rightarrow>
                (if OutputFile_bad cfg h (disk s1) then None
                 else
                   (let s2 = s1\<lparr> disk := AppendToFile cfg h message (disk s1) \<rparr>;
                        s3 = s2\<lparr> status := (status s2)
                               \<lparr> appended_file_size :=
                                   appended_file_size (status s2) + message_size_in_bytes \<rparr> \<rparr>
                    in if ShouldFinalize cfg (status s3) now
                       then Some (FinalizeCurrentFile cfg s3)
                       else Some s3))))"

definition ForceProcessing :: "('d, 'm) CONFIG \<Rightarrow> bool \<Rightarrow> 'd FSQ \<Rightarrow> 'd FSQ" where
  "ForceProcessing cfg force_finalize_current_file s =
     (let s1 = (if force_finalize_current_file \<or> queue (finalized (status s)) = []
                then (case current_file s of
                        None \<Rightarrow> s
                      | Some h \<Rightarrow> FinalizeCurrentFile_locked cfg s)
                else s)
      in s1\<lparr> force_processing := True, notifications := Suc (notifications s1) \<rparr>)"

text \<open>
  \<^verbatim>\<open>RemoveAllFSQFiles\<close>: one scan for finalized names, each match removed; then one
  scan for current names, each match removed.
\<close>

definition RemoveAllFSQFiles :: "('d, 'm) CONFIG \<Rightarrow> 'd FSQ \<Rightarrow> 'd FSQ" where
  "RemoveAllFSQFiles cfg s =
     (let s1 = s\<lparr> disk := fold (\<lambda>file. RemoveFile cfg (full_path_name file))
                            (ScanDir cfg (finalized_ParseFileName cfg) s) (disk s) \<rparr>
      in s1\<lparr> disk := fold (\<lambda>file. RemoveFile cfg (full_path_name file))
                        (ScanDir cfg (current_ParseFileName cfg) s1) (disk s1) \<rparr>)"

text \<open>
  \<^verbatim>\<open>GetQueueStatus\<close>: the loop \<^verbatim>\<open>while (!status_ready_) wait(lock)\<close> tests the shared
  state at the call and again after every wake-up. \<open>s\<close> is the state at the call,
  \<open>wakeups\<close> the states found at the successive wake-ups. The result is \<open>None\<close> while the
  caller is still waiting after the last of them.
\<close>

fun GetQueueStatus :: "'d FSQ \<Rightarrow> 'd FSQ list \<Rightarrow> QueueStatus option" where
  "GetQueueStatus s wakeups =
     (if status_ready s then Some (status s)
      else (case wakeups of
              [] \<Rightarrow> None
            | s' # rest \<Rightarrow> GetQueueStatus s' rest))"

section \<open>The worker thread\<close>

text \<open>Steps 1 to 3 of \<^verbatim>\<open>WorkerThread\<close>: the startup scan.\<close>

definition WorkerThread_startup :: "('d, 'm) CONFIG \<Rightarrow> 'd FSQ \<Rightarrow> 'd FSQ" where
  "WorkerThread_startup cfg s =
     (let finalized_files_on_disk = ScanDir cfg (finalized_ParseFileName cfg) s;
          s1 = s\<lparr> status := (status s)
                 \<lparr> finalized := \<lparr> queue = finalized_files_on_disk, total_size = 0 \<rparr> \<rparr> \<rparr>;
          s2 = fold (\<lambda>file t. t\<lparr> status := (status t)
                 \<lparr> finalized := (finalized (status t))
                     \<lparr> total_size := total_size (finalized (status t)) + size_bytes file \<rparr> \<rparr> \<rparr>)
                 finalized_files_on_disk s1;
          current_files_on_disk = ScanDir cfg (current_ParseFileName cfg) s2
      in s2\<lparr> status_ready := True, notifications := Suc (notifications s2) \<rparr>)"

text \<open>The wait predicate of step 4.\<close>

definition WorkerThread_predicate :: "'d FSQ \<Rightarrow> bool" where
  "WorkerThread_predicate s =
     (if force_worker_thread_shutdown s then True
      else if force_processing s then True
      else if queue (finalized (status s)) \<noteq> [] then True
      else False)"

text \<open>
  The second critical section of an iteration, after \<^verbatim>\<open>OnFileReady\<close> returned
  \<open>result\<close> for \<open>next_file\<close>: the assertion, then \<^verbatim>\<open>pop_front\<close>. \<open>None\<close> is the failed
  assertion.
\<close>

definition WorkerThread_apply ::
    "FileInfo \<Rightarrow> FileProcessingResult \<Rightarrow> 'd FSQ \<Rightarrow> 'd FSQ option" where
  "WorkerThread_apply next_file result s =
     (case queue (finalized (status s)) of
        [] \<Rightarrow> None
      | front # rest \<Rightarrow>
          (if next_file = front
           then Some (s\<lparr> status := (status s)
                  \<lparr> finalized := (finalized (status s))\<lparr> queue := rest \<rparr> \<rparr> \<rparr>)
           else None))"

text \<open>
  The loop of step 4 for a worker running with no other thread in between. The processor
  is a state machine \<open>OnFileReady\<close> over its own state \<open>p\<close>; the calls it receives are
  collected in order. The loop ends when the thread returns on shutdown, when it goes to
  sleep on the condition variable (nothing can wake it in this run), when the assertion
  fails, or when the fuel is used up.
\<close>

datatype worker_exit = Returned | Sleeping | AssertionFailed | OutOfFuel

fun WorkerThread_loop ::
    "nat \<Rightarrow> ('p \<Rightarrow> FileInfo \<Rightarrow> T_TIMESTAMP \<Rightarrow> FileProcessingResult \<times> 'p) \<Rightarrow> T_TIMESTAMP \<Rightarrow>
     'p \<Rightarrow> FileInfo list \<Rightarrow> 'd FSQ \<Rightarrow> worker_exit \<times> FileInfo list \<times> 'p \<times> 'd FSQ" where
  "WorkerThread_loop 0 OnFileReady now p calls s = (OutOfFuel, calls, p, s)"
| "WorkerThread_loop (Suc fuel) OnFileReady now p calls s =
     (if \<not> WorkerThread_predicate s then (Sleeping, calls, p, s)
      else if force_worker_thread_shutdown s then (Returned, calls, p, s)
      else (case queue (finalized (status s)) of
              [] \<Rightarrow> WorkerThread_loop fuel OnFileReady now p calls s
            | next_file # rest \<Rightarrow>
                (case OnFileReady p next_file now of
                   (result, p') \<Rightarrow>
                     (case WorkerThread_apply next_file result s of
                        None \<Rightarrow> (AssertionFailed, calls @ [next_file], p', s)
                      | Some s' \<Rightarrow>
                          WorkerThread_loop fuel OnFileReady now p' (calls @ [next_file]) s'))))"

section \<open>A concrete configuration: the test's \<^verbatim>\<open>MockConfig\<close>\<close>

text \<open>
  The strategies and the file system that the test instantiates come from headers that
  are not among the sources; the definitions of this section follow the spec's
  description of each default. They serve to run the engine on concrete inputs.
\<close>

type_synonym mem_disk = "(string \<times> string) list"

text \<open>
  Modelled from the spec: \<^verbatim>\<open>Bricks/file/file.h\<close> is missing. The spec's file-system
  adapter has \<^verbatim>\<open>join_path\<close>, \<^verbatim>\<open>open_append\<close>, \<^verbatim>\<open>append\<close>, \<^verbatim>\<open>rename\<close>, \<^verbatim>\<open>remove\<close>,
  \<^verbatim>\<open>size\<close> and a non-recursive \<^verbatim>\<open>scan_dir\<close>, and describes no failure of a stream.
  The disk is a list of paths with their bytes, and a stream on it is never bad.
\<close>

definition mem_JoinPath :: "string \<Rightarrow> string \<Rightarrow> string" where
  "mem_JoinPath dir n =
     (if dir = [] then n else if last dir = CHR ''/'' then dir @ n else dir @ ''/'' @ n)"

definition mem_OutputFile :: "string \<Rightarrow> mem_disk \<Rightarrow> mem_disk" where
  "mem_OutputFile p d = (case map_of d p of None \<Rightarrow> d @ [(p, [])] | Some c \<Rightarrow> d)"

definition mem_write :: "string \<Rightarrow> string \<Rightarrow> mem_disk \<Rightarrow> mem_disk" where
  "mem_write p bytes d = map (\<lambda>(q, c). if q = p then (q, c @ bytes) else (q, c)) d"

definition mem_RemoveFile :: "string \<Rightarrow> mem_disk \<Rightarrow> mem_disk" where
  "mem_RemoveFile p d = filter (\<lambda>(q, c). q \<noteq> p) d"

definition mem_RenameFile :: "string \<Rightarrow> string \<Rightarrow> mem_disk \<Rightarrow> mem_disk" where
  "mem_RenameFile src dst d =
     (case map_of d src of
        None \<Rightarrow> d
      | Some c \<Rightarrow> mem_RemoveFile dst (mem_RemoveFile src d) @ [(dst, c)])"

fun strip_prefix :: "string \<Rightarrow> string \<Rightarrow> string option" where
  "strip_prefix [] s = Some s"
| "strip_prefix (p # ps) [] = None"
| "strip_prefix (p # ps) (c # cs) = (if p = c then strip_prefix ps cs else None)"

definition mem_ScanDir :: "string \<Rightarrow> mem_disk \<Rightarrow> string list" where
  "mem_ScanDir dir d =
     List.map_filter
       (\<lambda>(q, c). case strip_prefix (mem_JoinPath dir []) q of
            None \<Rightarrow> None
          | Some n \<Rightarrow> (if n = [] \<or> CHR ''/'' \<in> set n then None else Some n)) d"

definition mem_bad :: "string \<Rightarrow> mem_disk \<Rightarrow> bool" where
  "mem_bad p d = False"

definition mem_GetFileSize :: "string \<Rightarrow> mem_disk \<Rightarrow> uint64_t" where
  "mem_GetFileSize p d = (case map_of d p of None \<Rightarrow> 0 | Some c \<Rightarrow> of_nat (length c))"

text \<open>
  Modelled from the spec: the naming strategy of \<^verbatim>\<open>strategies.h\<close> is missing. The spec's
  default embeds the timestamp as 20 zero-padded decimal digits between a fixed prefix
  and a fixed suffix, and parsing fails on any name that is not of that exact form.
\<close>

definition digit_char :: "nat \<Rightarrow> char" where
  "digit_char d = ''0123456789'' ! d"

fun decimal :: "nat \<Rightarrow> nat \<Rightarrow> string" where
  "decimal 0 n = []"
| "decimal (Suc w) n = decimal w (n div 10) @ [digit_char (n mod 10)]"

fun parse_decimal :: "nat \<Rightarrow> string \<Rightarrow> nat option" where
  "parse_decimal acc [] = Some acc"
| "parse_decimal acc (c # cs) =
     (if 48 \<le> (of_char c :: nat) \<and> (of_char c :: nat) \<le> 57
      then parse_decimal (10 * acc + (of_char c - 48)) cs else None)"

definition GenerateFileName :: "string \<Rightarrow> string \<Rightarrow> T_TIMESTAMP \<Rightarrow> string" where
  "GenerateFileName prefix suffix t = prefix @ decimal 20 (unat t) @ suffix"

definition ParseFileName :: "string \<Rightarrow> string \<Rightarrow> string \<Rightarrow> T_TIMESTAMP option" where
  "ParseFileName prefix suffix s =
     (if length s = length prefix + 20 + length suffix
         \<and> take (length prefix) s = prefix
         \<and> drop (length prefix + 20) s = suffix
      then map_option of_nat (parse_decimal 0 (take 20 (drop (length prefix) s)))
      else None)"

text \<open>
  Modelled from the spec: \<^verbatim>\<open>SimpleFinalizationPolicy\<close> of \<^verbatim>\<open>strategies.h\<close> is missing.
  With no backlog the spec finalizes at size \<open>S0\<close> or age \<open>A0\<close>, with a backlog at size
  \<open>S1\<close> or age \<open>A1\<close>; a negative age counts as zero.
\<close>

definition SimpleFinalizationPolicy ::
    "uint64_t \<Rightarrow> int \<Rightarrow> uint64_t \<Rightarrow> int \<Rightarrow> QueueStatus \<Rightarrow> T_TIMESTAMP \<Rightarrow> bool" where
  "SimpleFinalizationPolicy S0 A0 S1 A1 st now =
     (let age = max 0 (uint now - uint (appended_file_timestamp st))
      in if queue (finalized st) = []
         then S0 \<le> appended_file_size st \<or> A0 \<le> age
         else S1 \<le> appended_file_size st \<or> A1 \<le> age)"

text \<open>
  Modelled from the spec: \<^verbatim>\<open>SimplePurgePolicy\<close> of \<^verbatim>\<open>strategies.h\<close> is missing. The
  spec's default overflow predicate holds when the total size exceeds \<open>B_max\<close> or the
  queue is longer than \<open>N_max\<close>. No function of \<^verbatim>\<open>fsq.h\<close> calls the purge policy.
\<close>

definition SimplePurgePolicy_overflow :: "uint64_t \<Rightarrow> nat \<Rightarrow> QueueStatus \<Rightarrow> bool" where
  "SimplePurgePolicy_overflow B_max N_max st =
     (B_max < total_size (finalized st) \<or> N_max < length (queue (finalized st)))"

text \<open>
  Modelled from the spec: \<^verbatim>\<open>AppendToFileWithSeparator\<close> of \<^verbatim>\<open>strategies.h\<close> is missing.
  The spec's default writes the payload followed by a one-byte separator and costs the
  payload's length plus one. The test sets the separator to a newline and the
  thresholds to 20 bytes or 10 seconds without backlog, 100 bytes or 60 seconds with.
\<close>

definition MockConfig :: "(mem_disk, string) CONFIG" where
  "MockConfig =
     \<lparr> finalized_GenerateFileName = GenerateFileName ''finalized-'' ''.bin'',
       finalized_ParseFileName = ParseFileName ''finalized-'' ''.bin'',
       current_GenerateFileName = GenerateFileName ''current-'' ''.bin'',
       current_ParseFileName = ParseFileName ''current-'' ''.bin'',
       MessageSizeInBytes = (\<lambda>m. of_nat (length m) + 1),
       AppendToFile = (\<lambda>p m. mem_write p (m @ [CHR 0x0A])),
       ShouldFinalize = SimpleFinalizationPolicy 20 10000 100 60000,
       JoinPath = mem_JoinPath,
       RenameFile = mem_RenameFile,
       RemoveFile = mem_RemoveFile,
       fs_ScanDir = mem_ScanDir,
       GetFileSize = mem_GetFileSize,
       OutputFile = mem_OutputFile,
       OutputFile_bad = mem_bad \<rparr>"


text \<open>The queue of the test, constructed on an empty directory, after the startup scan.\<close>

definition fresh_queue :: "mem_disk FSQ" where
  "fresh_queue = WorkerThread_startup MockConfig (FSQ_constructor ''build/'' [])"

text \<open>
  The test's \<^verbatim>\<open>MockProcessor\<close> returns the same verdict at every call; it keeps no state
  that matters here.
\<close>

definition MockProcessor ::
    "FileProcessingResult \<Rightarrow> unit \<Rightarrow> FileInfo \<Rightarrow> T_TIMESTAMP \<Rightarrow> FileProcessingResult \<times> unit" where
  "MockProcessor verdict p file now = (verdict, p)"

text \<open>The sum of the sizes of the entries of \<^verbatim>\<open>finalized.queue\<close>, in \<^verbatim>\<open>uint64_t\<close>.\<close>

definition queue_sizes_sum :: "QueueStatus \<Rightarrow> uint64_t" where
  "queue_sizes_sum st = sum_list (map size_bytes (queue (finalized st)))"

text \<open>
  One finalization from outside: \<^verbatim>\<open>PushMessage\<close> of one message, then
  \<^verbatim>\<open>ForceProcessing(true)\<close>, on a queue that may already have aborted.
\<close>

definition finalize_one ::
    "('d, 'm) CONFIG \<Rightarrow> 'm \<Rightarrow> T_TIMESTAMP \<Rightarrow> 'd FSQ option \<Rightarrow> 'd FSQ option" where
  "finalize_one cfg message now so =
     map_option (ForceProcessing cfg True) (Option.bind so (PushMessage cfg message now))"

text \<open>Queues started on directories that already hold files.\<close>

definition one_finalized_on_disk :: "mem_disk FSQ" where
  "one_finalized_on_disk =
     WorkerThread_startup MockConfig
       (FSQ_constructor ''build/'' [(''build/finalized-00000000000000001001.bin'', ''abcd'')])"

definition two_finalized_on_disk :: "mem_disk FSQ" where
  "two_finalized_on_disk =
     WorkerThread_startup MockConfig
       (FSQ_constructor ''build/''
          [(''build/finalized-00000000000000001002.bin'', ''efghij''),
           (''build/finalized-00000000000000001001.bin'', ''abcd'')])"

definition two_current_on_disk :: "mem_disk FSQ" where
  "two_current_on_disk =
     FSQ_constructor ''build/''
       [(''build/current-00000000000000001001.bin'', ''abcd''),
        (''build/current-00000000000000001002.bin'', ''efghij'')]"

section \<open>Basic facts\<close>


lemma FinalizeCurrentFile_locked_open:
  "current_file s = Some h \<Longrightarrow>
   FinalizeCurrentFile_locked cfg s =
     s\<lparr> current_file := None,
        disk := RenameFile cfg (current_file_name s)
                  (JoinPath cfg (working_directory s)
                     (finalized_GenerateFileName cfg (appended_file_timestamp (status s))))
                  (disk s),
        status := \<lparr> appended_file_size = 0, appended_file_timestamp = 0,
                    finalized = (finalized (status s))
                      \<lparr> queue := queue (finalized (status s)) @
                          [\<lparr> name = finalized_GenerateFileName cfg (appended_file_timestamp (status s)),
                             full_path_name = JoinPath cfg (working_directory s)
                               (finalized_GenerateFileName cfg (appended_file_timestamp (status s))),
                             timestamp = appended_file_timestamp (status s),
                             size_bytes = appended_file_size (status s) \<rparr>] \<rparr> \<rparr>,
        current_file_name := [],
        notifications := Suc (notifications s) \<rparr>"
  by (simp add: FinalizeCurrentFile_locked_def Let_def)

lemma FinalizeCurrentFile_locked_closed:
  "current_file s = None \<Longrightarrow> FinalizeCurrentFile_locked cfg s = s"
  by (simp add: FinalizeCurrentFile_locked_def)


lemma FinalizeCurrentFile_locked_total_size:
  "total_size (finalized (status (FinalizeCurrentFile_locked cfg s)))
     = total_size (finalized (status s))"
  by (simp add: FinalizeCurrentFile_locked_def Let_def split: option.splits)

lemma FinalizeCurrentFile_locked_keeps_queue:
  "\<exists>new. queue (finalized (status (FinalizeCurrentFile_locked cfg s)))
            = queue (finalized (status s)) @ new"
  by (simp add: FinalizeCurrentFile_locked_def Let_def split: option.splits)

lemma fold_total_size:
  "status (fold (\<lambda>file t. t\<lparr> status := (status t)
                 \<lparr> finalized := (finalized (status t))
                     \<lparr> total_size := total_size (finalized (status t)) + size_bytes file \<rparr> \<rparr> \<rparr>) fs s)
   = (status s)\<lparr> finalized := (finalized (status s))
        \<lparr> total_size := total_size (finalized (status s)) + sum_list (map size_bytes fs) \<rparr> \<rparr>"
  by (induction fs arbitrary: s) (simp_all add: add.assoc)

text \<open>The startup scan leaves \<^verbatim>\<open>total_size\<close> equal to the sum of the queued sizes.\<close>

lemma WorkerThread_startup_total_size:
  "total_size (finalized (status (WorkerThread_startup cfg s)))
     = queue_sizes_sum (status (WorkerThread_startup cfg s))"
  by (simp add: WorkerThread_startup_def Let_def fold_total_size queue_sizes_sum_def)

text \<open>
  The startup scan queues exactly the files that parse as finalized, sets
  \<^verbatim>\<open>status_ready\<close> whatever the other flags are, and leaves the disk alone.
\<close>

lemma fold_total_size_disk:
  "disk (fold (\<lambda>file t. t\<lparr> status := (status t)
                 \<lparr> finalized := (finalized (status t))
                     \<lparr> total_size := total_size (finalized (status t)) + size_bytes file \<rparr> \<rparr> \<rparr>) fs s)
   = disk s"
  by (induction fs arbitrary: s) simp_all

lemma WorkerThread_startup_disk:
  "disk (WorkerThread_startup cfg s) = disk s"
  by (simp add: WorkerThread_startup_def Let_def fold_total_size_disk)

lemma WorkerThread_startup_queue:
  "queue (finalized (status (WorkerThread_startup cfg s)))
     = ScanDir cfg (finalized_ParseFileName cfg) s"
  by (simp add: WorkerThread_startup_def Let_def fold_total_size)

lemma WorkerThread_startup_status_ready:
  "status_ready (WorkerThread_startup cfg s)"
  by (simp add: WorkerThread_startup_def Let_def)

text \<open>
  The second critical section of the worker never looks at the verdict, and touches
  neither the disk nor \<^verbatim>\<open>total_size\<close>: it pops the head.
\<close>

lemma WorkerThread_apply_ignores_verdict:
  "WorkerThread_apply next_file result s = WorkerThread_apply next_file Success s"
  by (simp add: WorkerThread_apply_def)

lemma WorkerThread_apply_frame:
  "WorkerThread_apply next_file result s = Some s' \<Longrightarrow>
     disk s' = disk s
     \<and> total_size (finalized (status s')) = total_size (finalized (status s))
     \<and> queue (finalized (status s')) = tl (queue (finalized (status s)))"
  by (auto simp add: WorkerThread_apply_def split: list.splits if_splits)

text \<open>What the wait loop of \<^verbatim>\<open>GetQueueStatus\<close> computes.\<close>

lemma GetQueueStatus_find:
  "GetQueueStatus s wakeups = map_option status (List.find status_ready (s # wakeups))"
  by (induction s wakeups rule: GetQueueStatus.induct) (simp split: list.splits)

section \<open>The claims\<close>

subsection \<open>The worker's handling of verdicts\<close>

text \<open>
  C1. The claim has the worker, on \<^verbatim>\<open>Success\<close>, remove the file from disk, pop the head
  and decrease \<^verbatim>\<open>total_size\<close> by the file's size. The code pops the head and does
  nothing else. Started on a directory holding one finalized file of 4 bytes, the worker
  calls a processor that returns \<^verbatim>\<open>Success\<close> once and goes to sleep: the queue is then
  empty, but the file is still on disk and \<^verbatim>\<open>total_size\<close> is still 4.
\<close>

theorem Success_leaves_file_and_total:
  "WorkerThread_loop 2 (MockProcessor Success) 1010 () [] one_finalized_on_disk
     = (Sleeping,
        [\<lparr> name = ''finalized-00000000000000001001.bin'',
            full_path_name = ''build/finalized-00000000000000001001.bin'',
            timestamp = 1001, size_bytes = 4 \<rparr>],
        (),
        \<lparr> status = \<lparr> appended_file_size = 0, appended_file_timestamp = 0,
                     finalized = \<lparr> queue = [], total_size = 4 \<rparr> \<rparr>,
          status_ready = True, working_directory = ''build/'', current_file = None,
          current_file_name = [], force_processing = False,
          force_worker_thread_shutdown = False, notifications = 1,
          disk = [(''build/finalized-00000000000000001001.bin'', ''abcd'')] \<rparr>)"
  by code_simp

text \<open>
  C3. The claim has the worker, on \<^verbatim>\<open>Unavailable\<close>, keep the head and call the
  processor on nothing until \<^verbatim>\<open>ForceProcessing\<close>. The code pops the head whatever the
  verdict. Started on a directory holding two finalized files, with \<^verbatim>\<open>force_processing\<close>
  never set, the worker calls a processor that returns \<^verbatim>\<open>Unavailable\<close> on the first
  file and then on the second, and ends asleep on an empty queue.
\<close>

theorem Unavailable_pops_and_continues:
  "queue (finalized (status two_finalized_on_disk))
     = [\<lparr> name = ''finalized-00000000000000001001.bin'',
           full_path_name = ''build/finalized-00000000000000001001.bin'',
           timestamp = 1001, size_bytes = 4 \<rparr>,
        \<lparr> name = ''finalized-00000000000000001002.bin'',
           full_path_name = ''build/finalized-00000000000000001002.bin'',
           timestamp = 1002, size_bytes = 6 \<rparr>]
   \<and> force_processing two_finalized_on_disk = False
   \<and> fst (WorkerThread_loop 3 (MockProcessor Unavailable) 1010 () [] two_finalized_on_disk)
       = Sleeping
   \<and> fst (snd (WorkerThread_loop 3 (MockProcessor Unavailable) 1010 () [] two_finalized_on_disk))
       = queue (finalized (status two_finalized_on_disk))
   \<and> queue (finalized (status (snd (snd (snd
         (WorkerThread_loop 3 (MockProcessor Unavailable) 1010 () [] two_finalized_on_disk))))))
       = []"
  by code_simp

subsection \<open>The size invariant\<close>

text \<open>
  C2. The claim has \<^verbatim>\<open>total_size\<close> equal to the sum of the queued sizes after a
  finalization and after the worker applied a verdict. On the fresh queue of the test,
  one push of \<^verbatim>\<open>foo\<close> and a forced finalization leave a queue whose sizes sum to 4 with
  \<^verbatim>\<open>total_size\<close> 0; on a directory holding one file of 4 bytes, the worker's pop leaves
  an empty queue with \<^verbatim>\<open>total_size\<close> 4.
\<close>

theorem total_size_not_maintained:
  "map_option (total_size \<circ> finalized \<circ> status)
       (finalize_one MockConfig ''foo'' 1001 (Some fresh_queue)) = Some 0
   \<and> map_option (queue_sizes_sum \<circ> status)
       (finalize_one MockConfig ''foo'' 1001 (Some fresh_queue)) = Some 4
   \<and> total_size (finalized (status (snd (snd (snd
         (WorkerThread_loop 2 (MockProcessor Success) 1010 () [] one_finalized_on_disk)))))) = 4
   \<and> queue_sizes_sum (status (snd (snd (snd
         (WorkerThread_loop 2 (MockProcessor Success) 1010 () [] one_finalized_on_disk))))) = 0"
  by code_simp

subsection \<open>Startup\<close>

text \<open>
  C4. The claim has the startup scan finalize all current files but the most recent.
  The code lists the current files and drops the list. Started on a directory holding
  two current files, the scan leaves the disk as it was, both files still parse as
  current, and the queue is empty.
\<close>

theorem startup_keeps_every_current_file:
  "map name (ScanDir MockConfig (current_ParseFileName MockConfig) two_current_on_disk)
     = [''current-00000000000000001001.bin'', ''current-00000000000000001002.bin'']
   \<and> map name (ScanDir MockConfig (current_ParseFileName MockConfig)
        (WorkerThread_startup MockConfig two_current_on_disk))
     = [''current-00000000000000001001.bin'', ''current-00000000000000001002.bin'']
   \<and> disk (WorkerThread_startup MockConfig two_current_on_disk) = disk two_current_on_disk
   \<and> queue (finalized (status (WorkerThread_startup MockConfig two_current_on_disk))) = []"
  by code_simp

subsection \<open>Purging\<close>

text \<open>
  C5. The claim has every growth of the finalized set followed by a purge, so that with
  \<open>N_max = 2\<close> three finalizations in a row leave the two newest files. The code never
  calls the purge policy. After three finalizations on the fresh queue all three files
  are queued and on disk, and the overflow predicate for \<open>N_max = 2\<close> still holds.
\<close>

theorem three_finalizations_purge_nothing:
  "map_option (map name \<circ> queue \<circ> finalized \<circ> status)
       (finalize_one MockConfig ''baz'' 1003
         (finalize_one MockConfig ''bar'' 1002
           (finalize_one MockConfig ''foo'' 1001 (Some fresh_queue))))
     = Some [''finalized-00000000000000001001.bin'',
             ''finalized-00000000000000001002.bin'',
             ''finalized-00000000000000001003.bin'']
   \<and> map_option (SimplePurgePolicy_overflow 1000 2 \<circ> status)
       (finalize_one MockConfig ''baz'' 1003
         (finalize_one MockConfig ''bar'' 1002
           (finalize_one MockConfig ''foo'' 1001 (Some fresh_queue))))
     = Some True
   \<and> map_option (map fst \<circ> disk)
       (finalize_one MockConfig ''baz'' 1003
         (finalize_one MockConfig ''bar'' 1002
           (finalize_one MockConfig ''foo'' 1001 (Some fresh_queue))))
     = Some [''build/finalized-00000000000000001001.bin'',
             ''build/finalized-00000000000000001002.bin'',
             ''build/finalized-00000000000000001003.bin'']"
  by code_simp

subsection \<open>\<^verbatim>\<open>GetQueueStatus\<close>\<close>

text \<open>
  C6. The claim has a call of \<^verbatim>\<open>GetQueueStatus\<close> fail with a ShuttingDown error when
  shutdown is initiated while the caller waits, and the code's own note in the wait loop
  asks for an exception there. The code tests \<^verbatim>\<open>status_ready\<close> only. A caller starts to
  wait before the startup scan has finished, and the destructor sets the shutdown flag
  while it waits: as long as \<^verbatim>\<open>status_ready\<close> is false the caller keeps waiting, and
  once the worker has finished the scan the call returns the snapshot. No error comes
  out of it.
\<close>

theorem GetQueueStatus_no_ShuttingDown:
  "force_worker_thread_shutdown (FSQ_constructor ''build/'' ([] :: mem_disk)) = False
   \<and> status_ready (FSQ_constructor ''build/'' ([] :: mem_disk)) = False
   \<and> force_worker_thread_shutdown (FSQ_destructor (FSQ_constructor ''build/'' ([] :: mem_disk)))
   \<and> status_ready (FSQ_destructor (FSQ_constructor ''build/'' ([] :: mem_disk))) = False
   \<and> GetQueueStatus (FSQ_constructor ''build/'' ([] :: mem_disk))
        [FSQ_destructor (FSQ_constructor ''build/'' []),
         FSQ_destructor (FSQ_constructor ''build/'' []),
         FSQ_destructor (FSQ_constructor ''build/'' [])] = None
   \<and> force_worker_thread_shutdown
        (WorkerThread_startup MockConfig (FSQ_destructor (FSQ_constructor ''build/'' [])))
   \<and> GetQueueStatus (FSQ_constructor ''build/'' ([] :: mem_disk))
        [FSQ_destructor (FSQ_constructor ''build/'' []),
         FSQ_destructor (FSQ_constructor ''build/'' []),
         WorkerThread_startup MockConfig (FSQ_destructor (FSQ_constructor ''build/'' []))]
       = Some \<lparr> appended_file_size = 0, appended_file_timestamp = 0,
                finalized = \<lparr> queue = [], total_size = 0 \<rparr> \<rparr>"
  by code_simp

subsection \<open>\<^verbatim>\<open>PushMessage\<close>\<close>




text \<open>
  C8. With the shutdown flag set, \<^verbatim>\<open>PushMessage\<close> returns the state it was given:
  the disk, the open file and every other member are unchanged.
\<close>

theorem PushMessage_after_shutdown:
  "force_worker_thread_shutdown s \<Longrightarrow> PushMessage cfg message now s = Some s"
  by (simp add: PushMessage_def)

theorem PushMessage_after_shutdown_witness:
  "force_worker_thread_shutdown (FSQ_destructor fresh_queue)
   \<and> PushMessage MockConfig ''foo'' 1001 (FSQ_destructor fresh_queue)
       = Some (FSQ_destructor fresh_queue)"
proof -
  have h: "force_worker_thread_shutdown (FSQ_destructor fresh_queue)"
    by (simp add: FSQ_destructor_def)
  from PushMessage_after_shutdown [OF h, of MockConfig "''foo''" 1001] h
  show ?thesis by (rule conjI [rotated])
qed

subsection \<open>\<^verbatim>\<open>ForceProcessing\<close>\<close>

text \<open>
  C9. \<^verbatim>\<open>ForceProcessing\<close> always leaves \<^verbatim>\<open>force_processing\<close> set. When a current file is
  open and either the argument is true or the queue is empty, it is the finalization of
  the current file (the file closed and renamed, its entry at the back of the queue, the
  current-file accounting reset) followed by setting the flag and one more notification.
  In every other case it only sets the flag and notifies once.
\<close>

theorem ForceProcessing_effect:
  "force_processing (ForceProcessing cfg b s)
   \<and> (if current_file s \<noteq> None \<and> (b \<or> queue (finalized (status s)) = [])
      then ForceProcessing cfg b s
             = (FinalizeCurrentFile_locked cfg s)
                 \<lparr> force_processing := True,
                   notifications := Suc (notifications (FinalizeCurrentFile_locked cfg s)) \<rparr>
           \<and> current_file (ForceProcessing cfg b s) = None
           \<and> current_file_name (ForceProcessing cfg b s) = []
           \<and> appended_file_size (status (ForceProcessing cfg b s)) = 0
           \<and> appended_file_timestamp (status (ForceProcessing cfg b s)) = 0
           \<and> queue (finalized (status (ForceProcessing cfg b s)))
               = queue (finalized (status s)) @
                   [\<lparr> name = finalized_GenerateFileName cfg (appended_file_timestamp (status s)),
                      full_path_name = JoinPath cfg (working_directory s)
                        (finalized_GenerateFileName cfg (appended_file_timestamp (status s))),
                      timestamp = appended_file_timestamp (status s),
                      size_bytes = appended_file_size (status s) \<rparr>]
           \<and> disk (ForceProcessing cfg b s)
               = RenameFile cfg (current_file_name s)
                   (JoinPath cfg (working_directory s)
                      (finalized_GenerateFileName cfg (appended_file_timestamp (status s))))
                   (disk s)
           \<and> notifications (ForceProcessing cfg b s) = notifications s + 2
      else ForceProcessing cfg b s
             = s\<lparr> force_processing := True, notifications := Suc (notifications s) \<rparr>)"
proof (cases "current_file s")
  case None
  then show ?thesis
    by (simp add: ForceProcessing_def)
next
  case (Some h)
  show ?thesis
  proof (cases "b \<or> queue (finalized (status s)) = []")
    case True
    have fp: "ForceProcessing cfg b s
                = (FinalizeCurrentFile_locked cfg s)
                    \<lparr> force_processing := True,
                      notifications := Suc (notifications (FinalizeCurrentFile_locked cfg s)) \<rparr>"
      using True Some by (auto simp add: ForceProcessing_def Let_def)
    show ?thesis
      using True Some
      by (simp add: fp) (simp add: FinalizeCurrentFile_locked_open [OF Some])
  next
    case False
    then show ?thesis
      by (simp add: ForceProcessing_def)
  qed
qed

theorem ForceProcessing_effect_witness:
  "map_option (ForceProcessing MockConfig False) (PushMessage MockConfig ''foo'' 1001 fresh_queue)
     = Some \<lparr> status = \<lparr> appended_file_size = 0, appended_file_timestamp = 0,
                finalized = \<lparr> queue = [\<lparr> name = ''finalized-00000000000000001001.bin'',
                     full_path_name = ''build/finalized-00000000000000001001.bin'',
                     timestamp = 1001, size_bytes = 4 \<rparr>], total_size = 0 \<rparr> \<rparr>,
       status_ready = True, working_directory = ''build/'', current_file = None,
       current_file_name = [], force_processing = True,
       force_worker_thread_shutdown = False, notifications = 3,
       disk = [(''build/finalized-00000000000000001001.bin'', ''foo'' @ [CHR 0x0A])] \<rparr>"
proof -
  define s where "s = \<lparr> status = \<lparr> appended_file_size = 4, appended_file_timestamp = 1001,
                finalized = \<lparr> queue = [], total_size = 0 \<rparr> \<rparr>,
       status_ready = True, working_directory = ''build/'',
       current_file = Some ''build/current-00000000000000001001.bin'',
       current_file_name = ''build/current-00000000000000001001.bin'', force_processing = False,
       force_worker_thread_shutdown = False, notifications = 1,
       disk = [(''build/current-00000000000000001001.bin'', ''foo'' @ [CHR 0x0A])] \<rparr>"
  have p: "PushMessage MockConfig ''foo'' 1001 fresh_queue = Some s"
    unfolding s_def by code_simp
  have c: "current_file s \<noteq> None \<and> (False \<or> queue (finalized (status s)) = [])"
    by (simp add: s_def)
  have f: "FinalizeCurrentFile_locked MockConfig s
     = \<lparr> status = \<lparr> appended_file_size = 0, appended_file_timestamp = 0,
                finalized = \<lparr> queue = [\<lparr> name = ''finalized-00000000000000001001.bin'',
                     full_path_name = ''build/finalized-00000000000000001001.bin'',
                     timestamp = 1001, size_bytes = 4 \<rparr>], total_size = 0 \<rparr> \<rparr>,
       status_ready = True, working_directory = ''build/'', current_file = None,
       current_file_name = [], force_processing = False,
       force_worker_thread_shutdown = False, notifications = 2,
       disk = [(''build/finalized-00000000000000001001.bin'', ''foo'' @ [CHR 0x0A])] \<rparr>"
    unfolding s_def by code_simp
  from ForceProcessing_effect [of MockConfig False s] c
  have "ForceProcessing MockConfig False s
          = (FinalizeCurrentFile_locked MockConfig s)
              \<lparr> force_processing := True,
                notifications := Suc (notifications (FinalizeCurrentFile_locked MockConfig s)) \<rparr>"
    by simp
  then show ?thesis
    by (simp add: p f)
qed

subsection \<open>\<^verbatim>\<open>RemoveAllFSQFiles\<close>\<close>

text \<open>
  C10. \<^verbatim>\<open>RemoveAllFSQFiles\<close> changes the disk and nothing else: the status with its
  queue and sizes, \<^verbatim>\<open>status_ready\<close>, the open file and its name keep their values, and
  \<^verbatim>\<open>GetQueueStatus\<close> answers after it as it did before.
\<close>

theorem RemoveAllFSQFiles_frame:
  "RemoveAllFSQFiles cfg s = s\<lparr> disk := disk (RemoveAllFSQFiles cfg s) \<rparr>
   \<and> status (RemoveAllFSQFiles cfg s) = status s
   \<and> status_ready (RemoveAllFSQFiles cfg s) = status_ready s
   \<and> current_file (RemoveAllFSQFiles cfg s) = current_file s
   \<and> current_file_name (RemoveAllFSQFiles cfg s) = current_file_name s
   \<and> GetQueueStatus (RemoveAllFSQFiles cfg s) wakeups = GetQueueStatus s wakeups"
proof -
  have frame: "RemoveAllFSQFiles cfg s = s\<lparr> disk := disk (RemoveAllFSQFiles cfg s) \<rparr>"
    by (simp add: RemoveAllFSQFiles_def Let_def)
  have st: "status (RemoveAllFSQFiles cfg s) = status s"
    and rd: "status_ready (RemoveAllFSQFiles cfg s) = status_ready s"
    and cf: "current_file (RemoveAllFSQFiles cfg s) = current_file s"
    and cn: "current_file_name (RemoveAllFSQFiles cfg s) = current_file_name s"
    by (simp_all add: RemoveAllFSQFiles_def Let_def)
  have "GetQueueStatus (RemoveAllFSQFiles cfg s) wakeups = GetQueueStatus s wakeups"
    using st rd
    by (simp add: GetQueueStatus.simps [of "RemoveAllFSQFiles cfg s"] GetQueueStatus.simps [of s]
          del: GetQueueStatus.simps)
  with frame st rd cf cn show ?thesis by blast
qed

theorem RemoveAllFSQFiles_frame_witness:
  "disk two_finalized_on_disk
     = [(''build/finalized-00000000000000001002.bin'', ''efghij''),
        (''build/finalized-00000000000000001001.bin'', ''abcd'')]
   \<and> disk (RemoveAllFSQFiles MockConfig two_finalized_on_disk) = []
   \<and> GetQueueStatus (RemoveAllFSQFiles MockConfig two_finalized_on_disk) []
       = Some (status two_finalized_on_disk)
   \<and> map name (queue (finalized (status (RemoveAllFSQFiles MockConfig two_finalized_on_disk))))
       = [''finalized-00000000000000001001.bin'', ''finalized-00000000000000001002.bin'']"
proof -
  have d: "disk two_finalized_on_disk
     = [(''build/finalized-00000000000000001002.bin'', ''efghij''),
        (''build/finalized-00000000000000001001.bin'', ''abcd'')]"
    by code_simp
  have r: "disk (RemoveAllFSQFiles MockConfig two_finalized_on_disk) = []"
    by code_simp
  have q: "map name (queue (finalized (status two_finalized_on_disk)))
       = [''finalized-00000000000000001001.bin'', ''finalized-00000000000000001002.bin'']"
    by code_simp
  have g: "GetQueueStatus two_finalized_on_disk [] = Some (status two_finalized_on_disk)"
    by code_simp
  from RemoveAllFSQFiles_frame [of MockConfig two_finalized_on_disk "[]"]
  have st: "status (RemoveAllFSQFiles MockConfig two_finalized_on_disk)
              = status two_finalized_on_disk"
    and gq: "GetQueueStatus (RemoveAllFSQFiles MockConfig two_finalized_on_disk) []
              = GetQueueStatus two_finalized_on_disk []"
    by blast+
  show ?thesis
    unfolding gq st using d r q g by blast
qed

end
